theory Spec2Isabelle
  imports Complex_Main
begin

section \<open>Data model (types.ts)\<close>

text \<open>
  A JavaScript \<open>number\<close> is modelled as a \<open>real\<close>: arithmetic is exact, there is no
  rounding, no overflow and no signed zero. The one place of the program where a
  non-finite number can arise from finite inputs is the division that computes the
  scale; its result is a \<open>jsnum\<close>, which keeps \<open>Infinity\<close> and \<open>NaN\<close> apart from the
  finite values.

  The interfaces \<open>PixelCoords\<close> and \<open>RealCoords\<close> both have the fields \<open>x\<close> and \<open>y\<close>;
  the record fields carry a prefix to keep the two types apart.
\<close>

record PixelCoords =
  pix_x :: real
  pix_y :: real

record RealCoords =
  real_x :: real
  real_y :: real

record Point =
  name :: string
  pixelCoords :: PixelCoords
  realCoords :: RealCoords
  distance :: real
  bearing :: real

record Area =
  area_name :: string
  area_points :: "Point list"
  realArea :: real

datatype AppState =
    UPLOAD_IMAGE
  | CALIBRATE_START
  | CALIBRATE_END
  | SET_ORIGIN
  | READY
  | NAMING_POINT
  | DEFINING_AREA
  | NAMING_AREA

text \<open>The string value of each member of the string enum \<open>AppState\<close>.\<close>

fun AppState_value :: "AppState \<Rightarrow> string" where
  "AppState_value UPLOAD_IMAGE = ''UPLOAD_IMAGE''"
| "AppState_value CALIBRATE_START = ''CALIBRATE_START''"
| "AppState_value CALIBRATE_END = ''CALIBRATE_END''"
| "AppState_value SET_ORIGIN = ''SET_ORIGIN''"
| "AppState_value READY = ''READY''"
| "AppState_value NAMING_POINT = ''NAMING_POINT''"
| "AppState_value DEFINING_AREA = ''DEFINING_AREA''"
| "AppState_value NAMING_AREA = ''NAMING_AREA''"

section \<open>JavaScript primitives\<close>

datatype jsnum = Fin real | PosInf | NegInf | NaN

text \<open>
  \<open>a / b\<close> on finite operands, the divisor being \<open>+0\<close> when it is zero (the known
  distance is read by \<open>parseFloat(...) || 0\<close>, which never yields \<open>-0\<close>).
\<close>

definition js_div :: "real \<Rightarrow> real \<Rightarrow> jsnum" where
  "js_div a b =
     (if b \<noteq> 0 then Fin (a / b)
      else if 0 < a then PosInf
      else if a < 0 then NegInf
      else NaN)"

text \<open>\<open>!n\<close> for a number: true for \<open>0\<close> and \<open>NaN\<close>.\<close>

fun js_not :: "jsnum \<Rightarrow> bool" where
  "js_not (Fin r) = (r = 0)"
| "js_not NaN = True"
| "js_not PosInf = False"
| "js_not NegInf = False"

text \<open>A finite number divided by a number that is neither zero nor \<open>NaN\<close>.\<close>

fun js_div_by :: "real \<Rightarrow> jsnum \<Rightarrow> real" where
  "js_div_by a (Fin r) = a / r"
| "js_div_by a PosInf = 0"
| "js_div_by a NegInf = 0"
| "js_div_by a NaN = 0"

text \<open>
  The remainder operator \<open>a % b\<close> for a finite \<open>a\<close> and a non-zero finite \<open>b\<close>: the
  quotient is truncated towards zero, so the result has the sign of the dividend.
\<close>

definition js_trunc :: "real \<Rightarrow> int" where
  "js_trunc r = (if r < 0 then \<lceil>r\<rceil> else \<lfloor>r\<rfloor>)"

definition js_rem :: "real \<Rightarrow> real \<Rightarrow> real" where
  "js_rem a b = a - b * of_int (js_trunc (a / b))"

text \<open>\<open>Math.atan2(b, a)\<close>: the angle of the point \<open>(a, b)\<close>, in \<open>(-pi, pi]\<close>.\<close>

definition atan2 :: "real \<Rightarrow> real \<Rightarrow> real" where
  "atan2 b a =
     (if 0 < a then arctan (b / a)
      else if a < 0 \<and> 0 \<le> b then arctan (b / a) + pi
      else if a < 0 then arctan (b / a) - pi
      else if 0 < b then pi / 2
      else if b < 0 then - (pi / 2)
      else 0)"

text \<open>
  \<open>String.prototype.trim\<close>, on the ASCII white space (a \<open>char\<close> is a byte here).
\<close>

definition is_space :: "char \<Rightarrow> bool" where
  "is_space c = (c \<in> set [CHR '' '', CHR 0x09, CHR 0x0A, CHR 0x0B, CHR 0x0C, CHR 0x0D])"

definition trim :: "string \<Rightarrow> string" where
  "trim s = rev (dropWhile is_space (rev (dropWhile is_space s)))"

text \<open>The decimal digits of a natural number, as a template literal prints it.\<close>

definition digit_char :: "nat \<Rightarrow> char" where
  "digit_char d = ''0123456789'' ! d"

function string_of_nat :: "nat \<Rightarrow> string" where
  "string_of_nat n =
     (if n < 10 then [digit_char n]
      else string_of_nat (n div 10) @ [digit_char (n mod 10)])"
  by pat_completeness auto
termination
  by (relation "measure id") auto

declare string_of_nat.simps [simp del]

text \<open>
  \<open>s < t\<close> on strings: code units are compared from the left, and a proper prefix
  is smaller.
\<close>

fun js_string_lt :: "string \<Rightarrow> string \<Rightarrow> bool" where
  "js_string_lt [] [] = False"
| "js_string_lt [] (b # bs) = True"
| "js_string_lt (a # as) [] = False"
| "js_string_lt (a # as) (b # bs) =
     (if (of_char a :: nat) < of_char b then True
      else if (of_char b :: nat) < of_char a then False
      else js_string_lt as bs)"

section \<open>The component state\<close>

text \<open>
  The \<open>useState\<close> cells of \<open>App\<close> that the calibration, the measurements and the
  interaction states read or write. The image source, the PDF library flags, the
  inline renaming cells and the install prompt belong to rendering and file
  handling and are left out.
\<close>

record App =
  appState :: AppState
  points :: "Point list"
  areas :: "Area list"
  calibrationPoints :: "PixelCoords list"
  pixelsPerMeter :: "jsnum option"
  origin :: "PixelCoords option"
  knownDistance :: real
  tempPoint :: "PixelCoords option"
  newPointName :: string
  mouseRealCoords :: "RealCoords option"
  mousePixelCoords :: "PixelCoords option"
  currentAreaPoints :: "Point list"
  newAreaName :: string
  northRotation :: real

definition initial_App :: App where
  "initial_App =
     \<lparr>appState = UPLOAD_IMAGE, points = [], areas = [], calibrationPoints = [],
      pixelsPerMeter = None, origin = None, knownDistance = 10, tempPoint = None,
      newPointName = [], mouseRealCoords = None, mousePixelCoords = None,
      currentAreaPoints = [], newAreaName = [], northRotation = 0\<rparr>"

datatype js_error = TypeError

text \<open>The one \<open>alert\<close> of the area workflow: at least three points are needed.\<close>

datatype alert = AlertThreePointsNeeded

section \<open>Calibration and measurement\<close>

definition calculateDistance :: "PixelCoords \<Rightarrow> PixelCoords \<Rightarrow> real" where
  "calculateDistance p1 p2 = sqrt ((pix_x p2 - pix_x p1)\<^sup>2 + (pix_y p2 - pix_y p1)\<^sup>2)"

text \<open>
  \<open>!origin || !pixelsPerMeter\<close>: the origin is an object or \<open>null\<close>; the scale is
  \<open>null\<close> or a number, and a number is falsy when it is \<open>0\<close> or \<open>NaN\<close>.
\<close>

definition not_calibrated :: "App \<Rightarrow> bool" where
  "not_calibrated st =
     (origin st = None \<or> (case pixelsPerMeter st of None \<Rightarrow> True | Some n \<Rightarrow> js_not n))"

definition calculateRealCoords :: "App \<Rightarrow> PixelCoords \<Rightarrow> RealCoords" where
  "calculateRealCoords st clickPos =
     (if not_calibrated st then \<lparr>real_x = 0, real_y = 0\<rparr>
      else
        let og = the (origin st);
            ppm = the (pixelsPerMeter st);
            x_pixels = pix_x clickPos - pix_x og;
            y_pixels = pix_y og - pix_y clickPos
        in \<lparr>real_x = js_div_by x_pixels ppm, real_y = js_div_by y_pixels ppm\<rparr>)"

text \<open>\<open>calculateDistanceAndBearing\<close> returns the pair \<open>{ distance, bearing }\<close>.\<close>

definition calculateDistanceAndBearing :: "RealCoords \<Rightarrow> real \<Rightarrow> real \<times> real" where
  "calculateDistanceAndBearing rc rotation =
     (let distance = sqrt ((real_x rc)\<^sup>2 + (real_y rc)\<^sup>2);
          angleRad = atan2 (real_x rc) (real_y rc);
          angleDeg = angleRad * (180 / pi);
          bearing = js_rem (angleDeg - rotation + 360) 360
      in (distance, bearing))"

text \<open>\<open>calculatePointData\<close> returns \<open>{ realCoords, distance, bearing }\<close>.\<close>

definition calculatePointData :: "App \<Rightarrow> PixelCoords \<Rightarrow> RealCoords \<times> real \<times> real" where
  "calculatePointData st pc =
     (let rc = calculateRealCoords st pc;
          (d, b) = calculateDistanceAndBearing rc (northRotation st)
      in (rc, d, b))"

text \<open>
  The loop of \<open>calculatePolygonArea\<close>. Both indices stay below \<open>n = coords.length\<close>,
  so every read is in range.
\<close>

function polygon_loop :: "RealCoords list \<Rightarrow> nat \<Rightarrow> nat \<Rightarrow> real \<Rightarrow> real" where
  "polygon_loop coords n i area =
     (if i < n then
        let j = (i + 1) mod n;
            area1 = area + real_x (coords ! i) * real_y (coords ! j);
            area2 = area1 - real_x (coords ! j) * real_y (coords ! i)
        in polygon_loop coords n (i + 1) area2
      else area)"
  by pat_completeness auto
termination
  by (relation "measure (\<lambda>(coords, n, i, area). n - i)") auto

declare polygon_loop.simps [simp del]

definition calculatePolygonArea :: "RealCoords list \<Rightarrow> real" where
  "calculatePolygonArea coords =
     (let n = length coords
      in if n < 3 then 0 else \<bar>polygon_loop coords n 0 0 / 2\<bar>)"

section \<open>Event handlers\<close>

text \<open>The \<open>onload\<close> callback of \<open>handleFileUpload\<close>, once the image is decoded.\<close>

definition handleFileUpload :: "App \<Rightarrow> App" where
  "handleFileUpload st = st\<lparr>appState := CALIBRATE_START\<rparr>"

text \<open>The \<open>onChange\<close> of the known-distance input: \<open>parseFloat(value) || 0\<close>.\<close>

definition setKnownDistance :: "App \<Rightarrow> real option \<Rightarrow> App" where
  "setKnownDistance st v = st\<lparr>knownDistance := (case v of None \<Rightarrow> 0 | Some d \<Rightarrow> d)\<rparr>"

text \<open>
  \<open>handleImageClick\<close>; the second argument is the result of \<open>getClickCoordinates\<close>.
  In \<open>CALIBRATE_END\<close> the read \<open>calibrationPoints[0]\<close> is \<open>undefined\<close> on an empty
  array and the field access in \<open>calculateDistance\<close> then throws.
\<close>

definition handleImageClick :: "App \<Rightarrow> PixelCoords option \<Rightarrow> js_error + App" where
  "handleImageClick st e =
     (case e of
        None \<Rightarrow> Inr st
      | Some coords \<Rightarrow>
          (case appState st of
             CALIBRATE_START \<Rightarrow>
               Inr (st\<lparr>calibrationPoints := [coords], appState := CALIBRATE_END\<rparr>)
           | CALIBRATE_END \<Rightarrow>
               (case calibrationPoints st of
                  [] \<Rightarrow> Inl TypeError
                | firstPoint # rest \<Rightarrow>
                    let secondPoint = coords;
                        pixelDistance = calculateDistance firstPoint secondPoint
                    in Inr (st\<lparr>pixelsPerMeter := Some (js_div pixelDistance (knownDistance st)),
                               calibrationPoints := calibrationPoints st @ [secondPoint],
                               appState := SET_ORIGIN\<rparr>))
           | SET_ORIGIN \<Rightarrow> Inr (st\<lparr>origin := Some coords, appState := READY\<rparr>)
           | READY \<Rightarrow>
               Inr (st\<lparr>tempPoint := Some coords,
                        newPointName := ''Punto '' @ string_of_nat (length (points st) + 1),
                        appState := NAMING_POINT\<rparr>)
           | DEFINING_AREA \<Rightarrow>
               (let (rc, d, b) = calculatePointData st coords;
                    newAreaPoint =
                      \<lparr>name = ''V'' @ string_of_nat (length (currentAreaPoints st) + 1),
                       pixelCoords = coords, realCoords = rc, distance = d, bearing = b\<rparr>
                in Inr (st\<lparr>currentAreaPoints := currentAreaPoints st @ [newAreaPoint]\<rparr>))
           | _ \<Rightarrow> Inr st))"

definition handleCancelNaming :: "App \<Rightarrow> App" where
  "handleCancelNaming st =
     (let st1 = st\<lparr>tempPoint := None, newPointName := [], newAreaName := []\<rparr>
      in if appState st = NAMING_POINT then st1\<lparr>appState := READY\<rparr>
         else if appState st = NAMING_AREA then st1\<lparr>appState := DEFINING_AREA\<rparr>
         else st1)"

definition handleSavePoint :: "App \<Rightarrow> App" where
  "handleSavePoint st =
     (case tempPoint st of
        None \<Rightarrow> st
      | Some tp \<Rightarrow>
          if trim (newPointName st) = [] then st
          else
            let (rc, d, b) = calculatePointData st tp;
                newPoint = \<lparr>name = trim (newPointName st), pixelCoords = tp,
                            realCoords = rc, distance = d, bearing = b\<rparr>
            in handleCancelNaming (st\<lparr>points := points st @ [newPoint]\<rparr>))"

definition handleDeletePoint :: "App \<Rightarrow> nat \<Rightarrow> App" where
  "handleDeletePoint st index =
     st\<lparr>points := map snd (filter (\<lambda>(i, p). i \<noteq> index) (enumerate 0 (points st)))\<rparr>"

definition handleReset :: "App \<Rightarrow> App" where
  "handleReset st =
     st\<lparr>points := [], areas := [], calibrationPoints := [], pixelsPerMeter := None,
        origin := None, tempPoint := None, newPointName := [], newAreaName := [],
        currentAreaPoints := [], knownDistance := 10, northRotation := 0,
        appState := UPLOAD_IMAGE\<rparr>"

definition handleStartAreaMode :: "App \<Rightarrow> App" where
  "handleStartAreaMode st = st\<lparr>appState := DEFINING_AREA, currentAreaPoints := []\<rparr>"

definition handleCancelAreaMode :: "App \<Rightarrow> App" where
  "handleCancelAreaMode st = st\<lparr>appState := READY, currentAreaPoints := []\<rparr>"

text \<open>\<open>handleFinishArea\<close> returns the new state and the alert it raised, if any.\<close>

definition handleFinishArea :: "App \<Rightarrow> App \<times> alert option" where
  "handleFinishArea st =
     (if length (currentAreaPoints st) < 3 then (st, Some AlertThreePointsNeeded)
      else (st\<lparr>newAreaName := ''Area '' @ string_of_nat (length (areas st) + 1),
               appState := NAMING_AREA\<rparr>, None))"

definition handleSaveArea :: "App \<Rightarrow> App" where
  "handleSaveArea st =
     (if trim (newAreaName st) = [] \<or> length (currentAreaPoints st) < 3 then st
      else
        let realCoordsForArea = map realCoords (currentAreaPoints st);
            calculatedArea = calculatePolygonArea realCoordsForArea;
            newArea = \<lparr>area_name = trim (newAreaName st),
                       area_points = currentAreaPoints st,
                       realArea = calculatedArea\<rparr>
        in st\<lparr>areas := areas st @ [newArea], currentAreaPoints := [],
              newAreaName := [], appState := READY\<rparr>)"

text \<open>
  \<open>handleImageMouseMove\<close>. The guard \<open>appState < AppState.READY\<close> compares the string
  values of the enum members.
\<close>

definition handleImageMouseMove :: "App \<Rightarrow> PixelCoords option \<Rightarrow> App" where
  "handleImageMouseMove st coords =
     (let st1 = st\<lparr>mousePixelCoords := coords\<rparr>
      in if js_string_lt (AppState_value (appState st)) (AppState_value READY)
         then st1\<lparr>mouseRealCoords := None\<rparr>
         else (case coords of
                 None \<Rightarrow> st1
               | Some c \<Rightarrow> st1\<lparr>mouseRealCoords := Some (calculateRealCoords st c)\<rparr>))"

text \<open>
  The effect that recalculates the bearing of every stored point; it runs when
  \<open>northRotation\<close>, \<open>origin\<close> or \<open>pixelsPerMeter\<close> has changed.
\<close>

definition recalculateBearings :: "App \<Rightarrow> App" where
  "recalculateBearings st =
     (if length (points st) = 0 \<or> not_calibrated st then st
      else st\<lparr>points :=
                map (\<lambda>p. p\<lparr>bearing :=
                             snd (calculateDistanceAndBearing (realCoords p) (northRotation st))\<rparr>)
                    (points st)\<rparr>)"

text \<open>
  \<open>setNorthRotation\<close> followed by the effect. Setting the value the cell already
  holds changes no dependency, and the effect does not run.
\<close>

definition setNorthRotation :: "App \<Rightarrow> real \<Rightarrow> App" where
  "setNorthRotation st r =
     (if r = northRotation st then st
      else recalculateBearings (st\<lparr>northRotation := r\<rparr>))"

text \<open>
  The compass drag: \<open>dy\<close> and \<open>dx\<close> are the offsets of the mouse from the centre of
  the compass.
\<close>

definition compassMouseMove :: "App \<Rightarrow> real \<Rightarrow> real \<Rightarrow> App" where
  "compassMouseMove st dy dx =
     (let angleRad = atan2 dy dx;
          angleDeg = angleRad * (180 / pi) + 90
      in setNorthRotation st angleDeg)"

section \<open>Runs of the click handler and the scenarios of the specification\<close>

text \<open>A sequence of clicks on the image; the run stops at the first exception.\<close>

fun clicks :: "App \<Rightarrow> PixelCoords list \<Rightarrow> js_error + App" where
  "clicks st [] = Inr st"
| "clicks st (c # cs) =
     (case handleImageClick st (Some c) of Inl e \<Rightarrow> Inl e | Inr st' \<Rightarrow> clicks st' cs)"

text \<open>
  The calibration scenario: known distance 10, calibration clicks at the pixels
  \<open>(0, 0)\<close> and \<open>(100, 0)\<close>, origin at the pixel \<open>(50, 50)\<close>.
\<close>

definition scenario_ready :: App where
  "scenario_ready =
     initial_App\<lparr>appState := READY,
       calibrationPoints := [\<lparr>pix_x = 0, pix_y = 0\<rparr>, \<lparr>pix_x = 100, pix_y = 0\<rparr>],
       pixelsPerMeter := Some (Fin 10),
       origin := Some \<lparr>pix_x = 50, pix_y = 50\<rparr>\<rparr>"

text \<open>The same scenario after the point at the pixel \<open>(150, 50)\<close> has been saved.\<close>

definition scenario_saved :: App where
  "scenario_saved =
     scenario_ready\<lparr>points :=
       [\<lparr>name = ''Punto 1'', pixelCoords = \<lparr>pix_x = 150, pix_y = 50\<rparr>,
         realCoords = \<lparr>real_x = 10, real_y = 0\<rparr>, distance = 10, bearing = 90\<rparr>]\<rparr>"

text \<open>
  The same scenario in the area mode, after the clicks at the pixels \<open>(50, 50)\<close> and
  \<open>(150, 50)\<close>: two vertices are in progress.
\<close>

definition scenario_two_vertices :: App where
  "scenario_two_vertices =
     scenario_ready\<lparr>appState := DEFINING_AREA,
       currentAreaPoints :=
         [\<lparr>name = ''V1'', pixelCoords = \<lparr>pix_x = 50, pix_y = 50\<rparr>,
           realCoords = \<lparr>real_x = 0, real_y = 0\<rparr>, distance = 0, bearing = 0\<rparr>,
          \<lparr>name = ''V2'', pixelCoords = \<lparr>pix_x = 150, pix_y = 50\<rparr>,
           realCoords = \<lparr>real_x = 10, real_y = 0\<rparr>, distance = 10, bearing = 90\<rparr>]\<rparr>"

text \<open>
  A calibration whose two clicks fall on the same pixel, followed by the origin
  click and a click for a first point: the state in which that point is named.
\<close>

definition degenerate_naming :: App where
  "degenerate_naming =
     initial_App\<lparr>appState := NAMING_POINT,
       calibrationPoints := [\<lparr>pix_x = 0, pix_y = 0\<rparr>, \<lparr>pix_x = 0, pix_y = 0\<rparr>],
       pixelsPerMeter := Some (Fin 0),
       origin := Some \<lparr>pix_x = 50, pix_y = 50\<rparr>,
       tempPoint := Some \<lparr>pix_x = 150, pix_y = 50\<rparr>,
       newPointName := ''Punto 1''\<rparr>"

section \<open>Notions used in the statements\<close>

text \<open>The position of each member in the declaration of the enum (the workflow order).\<close>

fun AppState_index :: "AppState \<Rightarrow> nat" where
  "AppState_index UPLOAD_IMAGE = 0"
| "AppState_index CALIBRATE_START = 1"
| "AppState_index CALIBRATE_END = 2"
| "AppState_index SET_ORIGIN = 3"
| "AppState_index READY = 4"
| "AppState_index NAMING_POINT = 5"
| "AppState_index DEFINING_AREA = 6"
| "AppState_index NAMING_AREA = 7"

text \<open>
  The shoelace formula as the specification words it: the sum over all \<open>i\<close> of
  \<open>x\<^sub>i * y\<^sub>i\<^sub>+\<^sub>1 - x\<^sub>i\<^sub>+\<^sub>1 * y\<^sub>i\<close>, the index \<open>i + 1\<close> taken modulo the number of
  vertices.
\<close>

definition shoelace_term :: "RealCoords list \<Rightarrow> nat \<Rightarrow> real" where
  "shoelace_term cs i =
     real_x (cs ! i) * real_y (cs ! ((i + 1) mod length cs))
     - real_x (cs ! ((i + 1) mod length cs)) * real_y (cs ! i)"

definition shoelace_sum :: "RealCoords list \<Rightarrow> real" where
  "shoelace_sum cs = (\<Sum>i<length cs. shoelace_term cs i)"

text \<open>The edge of the reversed polygon that corresponds to edge \<open>i\<close>.\<close>

definition mirror_index :: "nat \<Rightarrow> nat \<Rightarrow> nat" where
  "mirror_index n i = n - 1 - (i + 1) mod n"

text \<open>Every stored bearing is the one computed for the current reference direction.\<close>

definition bearings_current :: "App \<Rightarrow> bool" where
  "bearings_current st =
     list_all (\<lambda>p. bearing p = snd (calculateDistanceAndBearing (realCoords p) (northRotation st)))
       (points st)"

text \<open>
  The bearing as the specification words it: \<open>(rawBearingDeg - referenceDirectionDeg + 360)
  mod 360\<close>, normalized into \<open>[0, 360)\<close>, the raw bearing being \<open>atan2(x, y)\<close> in degrees.
  The modulo is the one of mathematics (the quotient is rounded down).
\<close>

definition spec_bearing :: "RealCoords \<Rightarrow> real \<Rightarrow> real" where
  "spec_bearing rc ref =
     (let rawBearingDeg = atan2 (real_x rc) (real_y rc) * (180 / pi);
          a = rawBearingDeg - ref + 360
      in a - 360 * of_int \<lfloor>a / 360\<rfloor>)"

text \<open>Two angles in degrees that differ by a whole number of turns.\<close>

definition cong360 :: "real \<Rightarrow> real \<Rightarrow> bool" where
  "cong360 a b = (of_int \<lfloor>(a - b) / 360\<rfloor> * 360 = a - b)"

section \<open>Calibration\<close>

lemma sq_sum_pos:
  "p1 \<noteq> (p2::PixelCoords) \<Longrightarrow> 0 < (pix_x p2 - pix_x p1)\<^sup>2 + (pix_y p2 - pix_y p1)\<^sup>2"
proof -
  assume "p1 \<noteq> p2"
  then have "pix_x p2 - pix_x p1 \<noteq> 0 \<or> pix_y p2 - pix_y p1 \<noteq> 0"
    by (cases p1, cases p2) auto
  then show ?thesis
    by (auto simp: sum_power2_gt_zero_iff)
qed

lemma calculateDistance_pos: "p1 \<noteq> p2 \<Longrightarrow> 0 < calculateDistance p1 p2"
  unfolding calculateDistance_def by (simp add: sq_sum_pos)

lemma calculateDistance_same: "calculateDistance p p = 0"
  by (simp add: calculateDistance_def)

lemma calculateDistance_horizontal:
  "0 \<le> d \<Longrightarrow> calculateDistance \<lparr>pix_x = a, pix_y = b\<rparr> \<lparr>pix_x = a + d, pix_y = b\<rparr> = d"
  by (simp add: calculateDistance_def)

lemma calculateDistance_0_100:
  "calculateDistance \<lparr>pix_x = 0, pix_y = 0\<rparr> \<lparr>pix_x = 100, pix_y = 0\<rparr> = 100"
  using calculateDistance_horizontal [of 100 0 0] by simp

text \<open>
  C9. For distinct calibration points \<open>p1\<close>, \<open>p2\<close> and a known distance \<open>d > 0\<close>,
  the second calibration click stores the scale \<open>euclideanDistance(p1, p2) / d\<close>,
  and this scale is strictly positive.
\<close>

theorem calibration_scale:
  assumes "appState st = CALIBRATE_END" and "calibrationPoints st = p1 # rest"
    and "p1 \<noteq> p2" and "0 < knownDistance st"
  shows "handleImageClick st (Some p2) =
           Inr (st\<lparr>pixelsPerMeter :=
                      Some (Fin (sqrt ((pix_x p2 - pix_x p1)\<^sup>2 + (pix_y p2 - pix_y p1)\<^sup>2)
                                 / knownDistance st)),
                    calibrationPoints := calibrationPoints st @ [p2],
                    appState := SET_ORIGIN\<rparr>)
         \<and> calculateDistance p1 p2 = sqrt ((pix_x p2 - pix_x p1)\<^sup>2 + (pix_y p2 - pix_y p1)\<^sup>2)
         \<and> 0 < sqrt ((pix_x p2 - pix_x p1)\<^sup>2 + (pix_y p2 - pix_y p1)\<^sup>2) / knownDistance st"
  using assms sq_sum_pos [of p1 p2]
  by (simp add: handleImageClick_def js_div_def Let_def calculateDistance_def)

theorem calibration_scale_witness:
  "appState (initial_App\<lparr>appState := CALIBRATE_END,
               calibrationPoints := [\<lparr>pix_x = 0, pix_y = 0\<rparr>]\<rparr>) = CALIBRATE_END
   \<and> \<lparr>pix_x = 0, pix_y = 0\<rparr> \<noteq> \<lparr>pix_x = 100, pix_y = (0::real)\<rparr>
   \<and> 0 < knownDistance (initial_App\<lparr>appState := CALIBRATE_END,
               calibrationPoints := [\<lparr>pix_x = 0, pix_y = 0\<rparr>]\<rparr>)
   \<and> handleImageClick
        (initial_App\<lparr>appState := CALIBRATE_END, calibrationPoints := [\<lparr>pix_x = 0, pix_y = 0\<rparr>]\<rparr>)
        (Some \<lparr>pix_x = 100, pix_y = 0\<rparr>)
      = Inr (initial_App\<lparr>appState := SET_ORIGIN,
               calibrationPoints := [\<lparr>pix_x = 0, pix_y = 0\<rparr>, \<lparr>pix_x = 100, pix_y = 0\<rparr>],
               pixelsPerMeter := Some (Fin 10)\<rparr>)"
proof -
  let ?st = "initial_App\<lparr>appState := CALIBRATE_END,
               calibrationPoints := [\<lparr>pix_x = 0, pix_y = 0\<rparr>]\<rparr>"
  have h: "appState ?st = CALIBRATE_END" "calibrationPoints ?st = [\<lparr>pix_x = 0, pix_y = 0\<rparr>]"
    "\<lparr>pix_x = 0, pix_y = 0\<rparr> \<noteq> \<lparr>pix_x = 100, pix_y = (0::real)\<rparr>" "0 < knownDistance ?st"
    by (simp_all add: initial_App_def)
  have d: "sqrt ((100::real)\<^sup>2) = 100" by simp
  show ?thesis
    using h calibration_scale [OF h] d by (simp add: initial_App_def)
qed

text \<open>
  C2 (as stated, refuted). The second calibration click on the very pixel of the
  first one is accepted: the scale \<open>0\<close> is stored and the state becomes
  \<open>SET_ORIGIN\<close>.
\<close>

theorem degenerate_calibration_counterexample:
  "handleImageClick
     (initial_App\<lparr>appState := CALIBRATE_END, calibrationPoints := [\<lparr>pix_x = 0, pix_y = 0\<rparr>]\<rparr>)
     (Some \<lparr>pix_x = 0, pix_y = 0\<rparr>)
   = Inr (initial_App\<lparr>appState := SET_ORIGIN,
            calibrationPoints := [\<lparr>pix_x = 0, pix_y = 0\<rparr>, \<lparr>pix_x = 0, pix_y = 0\<rparr>],
            pixelsPerMeter := Some (Fin 0)\<rparr>)"
  by (simp add: handleImageClick_def initial_App_def calculateDistance_def js_div_def Let_def)

text \<open>
  C2 (amended). In \<open>CALIBRATE_END\<close> the second click is never rejected: the state
  becomes \<open>SET_ORIGIN\<close> and the scale cell receives \<open>pixelDistance / knownDistance\<close>,
  which is \<open>0\<close> for coincident clicks and a non-zero known distance, \<open>NaN\<close> for
  coincident clicks and known distance \<open>0\<close>, \<open>Infinity\<close> for distinct clicks and
  known distance \<open>0\<close>, and a negative number for distinct clicks and a negative
  known distance.
\<close>

theorem calibration_never_rejected:
  assumes "appState st = CALIBRATE_END" and "calibrationPoints st = p1 # rest"
  shows "handleImageClick st (Some p2) =
           Inr (st\<lparr>pixelsPerMeter := Some (js_div (calculateDistance p1 p2) (knownDistance st)),
                    calibrationPoints := calibrationPoints st @ [p2],
                    appState := SET_ORIGIN\<rparr>)
         \<and> (p2 = p1 \<and> knownDistance st \<noteq> 0 \<longrightarrow>
               js_div (calculateDistance p1 p2) (knownDistance st) = Fin 0)
         \<and> (p2 = p1 \<and> knownDistance st = 0 \<longrightarrow>
               js_div (calculateDistance p1 p2) (knownDistance st) = NaN)
         \<and> (p2 \<noteq> p1 \<and> knownDistance st = 0 \<longrightarrow>
               js_div (calculateDistance p1 p2) (knownDistance st) = PosInf)
         \<and> (p2 \<noteq> p1 \<and> knownDistance st < 0 \<longrightarrow>
               (\<exists>r. js_div (calculateDistance p1 p2) (knownDistance st) = Fin r \<and> r < 0))"
proof -
  have "p2 \<noteq> p1 \<Longrightarrow> 0 < calculateDistance p1 p2"
    using calculateDistance_pos [of p1 p2] by auto
  then show ?thesis
    using assms
    by (auto simp: handleImageClick_def Let_def js_div_def calculateDistance_same
        divide_pos_neg)
qed

theorem calibration_never_rejected_witness:
  "map_sum id pixelsPerMeter
     (handleImageClick
        (initial_App\<lparr>appState := CALIBRATE_END, calibrationPoints := [\<lparr>pix_x = 0, pix_y = 0\<rparr>],
           knownDistance := 10\<rparr>) (Some \<lparr>pix_x = 0, pix_y = 0\<rparr>)) = Inr (Some (Fin 0))
   \<and> map_sum id appState
     (handleImageClick
        (initial_App\<lparr>appState := CALIBRATE_END, calibrationPoints := [\<lparr>pix_x = 0, pix_y = 0\<rparr>],
           knownDistance := 10\<rparr>) (Some \<lparr>pix_x = 0, pix_y = 0\<rparr>)) = Inr SET_ORIGIN
   \<and> map_sum id pixelsPerMeter
     (handleImageClick
        (initial_App\<lparr>appState := CALIBRATE_END, calibrationPoints := [\<lparr>pix_x = 0, pix_y = 0\<rparr>],
           knownDistance := 0\<rparr>) (Some \<lparr>pix_x = 0, pix_y = 0\<rparr>)) = Inr (Some NaN)
   \<and> map_sum id pixelsPerMeter
     (handleImageClick
        (initial_App\<lparr>appState := CALIBRATE_END, calibrationPoints := [\<lparr>pix_x = 0, pix_y = 0\<rparr>],
           knownDistance := 0\<rparr>) (Some \<lparr>pix_x = 100, pix_y = 0\<rparr>)) = Inr (Some PosInf)
   \<and> map_sum id pixelsPerMeter
     (handleImageClick
        (initial_App\<lparr>appState := CALIBRATE_END, calibrationPoints := [\<lparr>pix_x = 0, pix_y = 0\<rparr>],
           knownDistance := - 10\<rparr>) (Some \<lparr>pix_x = 100, pix_y = 0\<rparr>)) = Inr (Some (Fin (- 10)))"
proof -
  let ?o = "\<lparr>pix_x = 0, pix_y = 0\<rparr> :: PixelCoords"
  let ?q = "\<lparr>pix_x = 100, pix_y = 0\<rparr> :: PixelCoords"
  let ?st = "\<lambda>k. initial_App\<lparr>appState := CALIBRATE_END, calibrationPoints := [?o],
                             knownDistance := k\<rparr>"
  have h: "appState (?st k) = CALIBRATE_END" "calibrationPoints (?st k) = [?o]" for k
    by (simp_all add: initial_App_def)
  have ne: "?q \<noteq> ?o" by simp
  have a: "map_sum id pixelsPerMeter (handleImageClick (?st 10) (Some ?o)) = Inr (Some (Fin 0))"
    using calibration_never_rejected [OF h, of 10 ?o] by simp
  have b: "map_sum id appState (handleImageClick (?st 10) (Some ?o)) = Inr SET_ORIGIN"
    using calibration_never_rejected [OF h, of 10 ?o] by simp
  have c: "map_sum id pixelsPerMeter (handleImageClick (?st 0) (Some ?o)) = Inr (Some NaN)"
    using calibration_never_rejected [OF h, of 0 ?o] by simp
  have d: "map_sum id pixelsPerMeter (handleImageClick (?st 0) (Some ?q)) = Inr (Some PosInf)"
    using calibration_never_rejected [OF h, of 0 ?q] ne by simp
  have e: "map_sum id pixelsPerMeter (handleImageClick (?st (- 10)) (Some ?q))
        = Inr (Some (Fin (- 10)))"
    using calibration_never_rejected [OF h, of "- 10" ?q]
    by (simp add: calculateDistance_0_100 js_div_def)
  from a b c d e show ?thesis by simp
qed

section \<open>Pixel coordinates to real coordinates\<close>

lemma scenario_ready_reached:
  "clicks (handleFileUpload initial_App)
     [\<lparr>pix_x = 0, pix_y = 0\<rparr>, \<lparr>pix_x = 100, pix_y = 0\<rparr>, \<lparr>pix_x = 50, pix_y = 50\<rparr>]
   = Inr scenario_ready"
  by (simp add: handleFileUpload_def handleImageClick_def initial_App_def scenario_ready_def
      calculateDistance_0_100 js_div_def Let_def)

lemma scenario_ready_calibrated:
  "pixelsPerMeter scenario_ready = Some (Fin 10)"
  "origin scenario_ready = Some \<lparr>pix_x = 50, pix_y = 50\<rparr>"
  "northRotation scenario_ready = 0"
  "points scenario_ready = []"
  "appState scenario_ready = READY"
  by (simp_all add: scenario_ready_def initial_App_def)

lemma scenario_ready_not_calibrated: "\<not> not_calibrated scenario_ready"
  by (simp add: not_calibrated_def scenario_ready_calibrated)

text \<open>
  C5. Once the scale \<open>s > 0\<close> and the origin are set, every pixel \<open>p\<close> is converted
  to \<open>((p.x - origin.x) / s, (origin.y - p.y) / s)\<close>, and the origin pixel itself
  is converted to \<open>(0, 0)\<close>.
\<close>

theorem calculateRealCoords_calibrated:
  assumes "pixelsPerMeter st = Some (Fin s)" and "0 < s" and "origin st = Some og"
  shows "calculateRealCoords st p =
           \<lparr>real_x = (pix_x p - pix_x og) / s, real_y = (pix_y og - pix_y p) / s\<rparr>
         \<and> calculateRealCoords st og = \<lparr>real_x = 0, real_y = 0\<rparr>"
  using assms by (simp add: calculateRealCoords_def not_calibrated_def Let_def)

theorem calculateRealCoords_calibrated_witness:
  "pixelsPerMeter scenario_ready = Some (Fin 10) \<and> (0::real) < 10
   \<and> origin scenario_ready = Some \<lparr>pix_x = 50, pix_y = 50\<rparr>
   \<and> calculateRealCoords scenario_ready \<lparr>pix_x = 150, pix_y = 50\<rparr> = \<lparr>real_x = 10, real_y = 0\<rparr>
   \<and> calculateRealCoords scenario_ready \<lparr>pix_x = 50, pix_y = 50\<rparr> = \<lparr>real_x = 0, real_y = 0\<rparr>"
proof -
  have h: "pixelsPerMeter scenario_ready = Some (Fin 10)" "(0::real) < 10"
    "origin scenario_ready = Some \<lparr>pix_x = 50, pix_y = 50\<rparr>"
    by (simp_all add: scenario_ready_calibrated)
  show ?thesis
    using h calculateRealCoords_calibrated [OF h, of "\<lparr>pix_x = 150, pix_y = 50\<rparr>"] by simp
qed

text \<open>
  C3 (as stated, refuted). Before any calibration, with neither scale nor origin
  set, the conversion of the pixel \<open>(5, 7)\<close> returns the coordinates \<open>(0, 0)\<close>.
\<close>

theorem calculateRealCoords_unset_counterexample:
  "origin initial_App = None \<and> pixelsPerMeter initial_App = None
   \<and> calculateRealCoords initial_App \<lparr>pix_x = 5, pix_y = 7\<rparr> = \<lparr>real_x = 0, real_y = 0\<rparr>"
  by (simp add: initial_App_def calculateRealCoords_def not_calibrated_def)

text \<open>
  C3 (amended). For every pixel, the conversion made while the scale or the origin
  is not yet set returns the coordinates \<open>(0, 0)\<close>; no failure is reported.
\<close>

theorem calculateRealCoords_unset:
  "origin st = None \<or> pixelsPerMeter st = None \<Longrightarrow>
     calculateRealCoords st p = \<lparr>real_x = 0, real_y = 0\<rparr>"
  by (auto simp: calculateRealCoords_def not_calibrated_def)

theorem calculateRealCoords_unset_witness:
  "(origin (handleFileUpload initial_App) = None
      \<or> pixelsPerMeter (handleFileUpload initial_App) = None)
   \<and> calculateRealCoords (handleFileUpload initial_App) \<lparr>pix_x = 640, pix_y = 480\<rparr>
       = \<lparr>real_x = 0, real_y = 0\<rparr>"
proof -
  have h: "origin (handleFileUpload initial_App) = None
      \<or> pixelsPerMeter (handleFileUpload initial_App) = None"
    by (simp add: handleFileUpload_def initial_App_def)
  show ?thesis
    using h calculateRealCoords_unset [OF h, of "\<lparr>pix_x = 640, pix_y = 480\<rparr>"] by simp
qed

section \<open>Distance and bearing\<close>

lemma js_rem_small_neg: "- b < a \<Longrightarrow> a \<le> 0 \<Longrightarrow> 0 < b \<Longrightarrow> js_rem a b = a"
proof -
  assume h: "- b < a" "a \<le> 0" "0 < b"
  then have "- 1 < a / b" "a / b \<le> 0"
    by (simp_all add: pos_less_divide_eq pos_divide_le_eq)
  then have "js_trunc (a / b) = 0"
    unfolding js_trunc_def by (auto simp: ceiling_eq_iff floor_eq_iff)
  then show ?thesis by (simp add: js_rem_def)
qed

lemma js_rem_nonneg:
  assumes "0 \<le> a"
  shows "js_rem a 360 = a - 360 * of_int \<lfloor>a / 360\<rfloor>"
    and "0 \<le> js_rem a 360" and "js_rem a 360 < 360"
proof -
  from assms have "\<not> a / 360 < 0" by simp
  then show eq: "js_rem a 360 = a - 360 * of_int \<lfloor>a / 360\<rfloor>"
    by (simp add: js_rem_def js_trunc_def)
  have "of_int \<lfloor>a / 360\<rfloor> \<le> a / 360" by (rule of_int_floor_le)
  then show "0 \<le> js_rem a 360" unfolding eq by linarith
  have "a / 360 < of_int \<lfloor>a / 360\<rfloor> + 1" by linarith
  then show "js_rem a 360 < 360" unfolding eq by linarith
qed

lemma js_rem_450: "js_rem 450 360 = 90"
  by (simp add: js_rem_def js_trunc_def)

lemma js_rem_360_360: "js_rem 360 360 = 0"
  by (simp add: js_rem_def js_trunc_def)

lemma atan2_bounds: "- pi < atan2 b a \<and> atan2 b a \<le> pi"
proof -
  have lb: "- (pi / 2) < arctan (b / a)" by (rule arctan_lbound)
  have ub: "arctan (b / a) < pi / 2" by (rule arctan_ubound)
  have p: "0 < pi" by (rule pi_gt_zero)
  consider "0 < a" | "a < 0" "0 \<le> b" | "a < 0" "b < 0" | "a = 0"
    by linarith
  then show ?thesis
  proof cases
    case 1
    then have "atan2 b a = arctan (b / a)" by (simp add: atan2_def)
    then show ?thesis using lb ub p by linarith
  next
    case 2
    then have "b / a \<le> 0" by (simp add: divide_nonneg_neg)
    then have "arctan (b / a) \<le> 0" by simp
    moreover have "atan2 b a = arctan (b / a) + pi" using 2 by (simp add: atan2_def)
    ultimately show ?thesis using lb p by linarith
  next
    case 3
    then have "0 < b / a" by (simp add: divide_neg_neg)
    then have "0 < arctan (b / a)" by simp
    moreover have "atan2 b a = arctan (b / a) - pi" using 3 by (simp add: atan2_def)
    ultimately show ?thesis using ub p by linarith
  next
    case 4
    then have "atan2 b a = pi / 2 \<or> atan2 b a = - (pi / 2) \<or> atan2 b a = 0"
      by (simp add: atan2_def)
    then show ?thesis using p by linarith
  qed
qed

lemma angleDeg_bounds:
  "- 180 < atan2 b a * (180 / pi) \<and> atan2 b a * (180 / pi) \<le> 180"
proof -
  have p: "0 < pi" by (rule pi_gt_zero)
  have "- pi < atan2 b a" and "atan2 b a \<le> pi"
    using atan2_bounds [of b a] by simp_all
  then have "- pi * (180 / pi) < atan2 b a * (180 / pi)"
    and "atan2 b a * (180 / pi) \<le> pi * (180 / pi)"
    using p by (simp_all add: field_simps)
  then show ?thesis using p by simp
qed

text \<open>
  The bearing is in \<open>[0, 360)\<close> as long as the reference direction is at most 180
  degrees: the dividend of the remainder is then non-negative.
\<close>

lemma bearing_in_range_upto_180:
  assumes "rotation \<le> 180"
  shows "0 \<le> snd (calculateDistanceAndBearing rc rotation)
       \<and> snd (calculateDistanceAndBearing rc rotation) < 360"
proof -
  let ?a = "atan2 (real_x rc) (real_y rc) * (180 / pi) - rotation + 360"
  have "0 \<le> ?a"
    using angleDeg_bounds [of "real_x rc" "real_y rc"] assms by simp
  then have "0 \<le> js_rem ?a 360" and "js_rem ?a 360 < 360"
    by (rule js_rem_nonneg(2), rule js_rem_nonneg(3))
  then show ?thesis
    by (simp add: calculateDistanceAndBearing_def Let_def)
qed

text \<open>The compass drag sets a reference direction in \<open>(-90, 270]\<close>.\<close>

lemma compass_rotation_range:
  "- 90 < atan2 dy dx * (180 / pi) + 90 \<and> atan2 dy dx * (180 / pi) + 90 \<le> 270"
  using angleDeg_bounds [of dy dx] by simp

lemma atan2_m1_m1: "atan2 (-1) (-1) = - (3 * pi / 4)"
  by (simp add: atan2_def arctan_one)

lemma atan2_0_m1: "atan2 0 (-1) = pi"
  by (simp add: atan2_def)

lemma scenario_point_data:
  "calculatePointData scenario_ready \<lparr>pix_x = 150, pix_y = 50\<rparr>
     = (\<lparr>real_x = 10, real_y = 0\<rparr>, 10, 90)"
  by (simp add: calculatePointData_def calculateRealCoords_def scenario_ready_not_calibrated
      scenario_ready_calibrated calculateDistanceAndBearing_def atan2_def js_rem_450)

text \<open>
  The parts of the computation that agree with the specification: the distance
  for every input, and the bearing whenever the dividend of the remainder is not
  negative; the bearing of the specification is always in \<open>[0, 360)\<close>.
\<close>

lemma calculateDistanceAndBearing_distance:
  "fst (calculateDistanceAndBearing rc ref) = sqrt ((real_x rc)\<^sup>2 + (real_y rc)\<^sup>2)"
  by (simp add: calculateDistanceAndBearing_def Let_def)

lemma bearing_eq_spec_bearing:
  "0 \<le> atan2 (real_x rc) (real_y rc) * (180 / pi) - ref + 360 \<Longrightarrow>
     snd (calculateDistanceAndBearing rc ref) = spec_bearing rc ref"
  using js_rem_nonneg(1) by (simp add: calculateDistanceAndBearing_def spec_bearing_def Let_def)

lemma floor_mod_360_range:
  "0 \<le> a - 360 * of_int \<lfloor>a / 360\<rfloor> \<and> a - 360 * of_int \<lfloor>a / 360\<rfloor> < (360::real)"
proof -
  have "of_int \<lfloor>a / 360\<rfloor> \<le> a / 360" by (rule of_int_floor_le)
  moreover have "a / 360 < of_int \<lfloor>a / 360\<rfloor> + 1" by linarith
  ultimately show ?thesis by linarith
qed

lemma spec_bearing_range: "0 \<le> spec_bearing rc ref \<and> spec_bearing rc ref < 360"
  unfolding spec_bearing_def Let_def by (rule floor_mod_360_range)

lemma spec_bearing_eq:
  "atan2 (real_x rc) (real_y rc) * (180 / pi) = d \<Longrightarrow>
     spec_bearing rc ref = (d - ref + 360) - 360 * of_int \<lfloor>(d - ref + 360) / 360\<rfloor>"
  by (simp add: spec_bearing_def Let_def)

lemma scenario_bearing_eq_spec:
  "snd (calculateDistanceAndBearing \<lparr>real_x = 10, real_y = 0\<rparr> 0) = 90"
  "spec_bearing \<lparr>real_x = 10, real_y = 0\<rparr> 0 = 90"
  by (simp_all add: calculateDistanceAndBearing_def spec_bearing_def atan2_def js_rem_450)

lemma calculateDistanceAndBearing_m1_m1_270:
  "calculateDistanceAndBearing \<lparr>real_x = -1, real_y = -1\<rparr> 270 = (sqrt 2, -45)"
proof -
  have deg: "atan2 (-1) (-1) * (180 / pi) = -135"
    by (simp add: atan2_m1_m1)
  have "js_rem (-45) 360 = -45"
    by (rule js_rem_small_neg) simp_all
  then have "js_rem (atan2 (-1) (-1) * (180 / pi) - 270 + 360) 360 = -45"
    unfolding deg by simp
  then show ?thesis
    unfolding calculateDistanceAndBearing_def Let_def by simp
qed

lemma spec_bearing_m1_m1_270: "spec_bearing \<lparr>real_x = -1, real_y = -1\<rparr> 270 = 315"
proof -
  have deg: "atan2 (real_x \<lparr>real_x = -1, real_y = -1\<rparr>) (real_y \<lparr>real_x = -1, real_y = -1\<rparr>)
      * (180 / pi) = -135"
    by (simp add: atan2_m1_m1)
  have f: "\<lfloor>((-135::real) - 270 + 360) / 360\<rfloor> = - 1"
    by (simp add: floor_eq_iff)
  show ?thesis
    unfolding spec_bearing_eq [OF deg] f by simp
qed

text \<open>
  C4 (evaluation at the failing input). For the real coordinates \<open>(-1, -1)\<close> and
  the reference direction 270 the distance returned is \<open>sqrt 2\<close>, as the claim
  says, but the bearing returned is -45, whereas
  \<open>(atan2(x, y) in degrees - ref + 360) mod 360\<close> is 315. In the scenario of the
  claim (real coordinates \<open>(10, 0)\<close>, reference direction 0) the two agree: both
  are 90, and the distance is 10.
\<close>

theorem bearing_not_mod_360_at_270:
  "fst (calculateDistanceAndBearing \<lparr>real_x = -1, real_y = -1\<rparr> 270) = sqrt ((-1)\<^sup>2 + (-1)\<^sup>2)
   \<and> snd (calculateDistanceAndBearing \<lparr>real_x = -1, real_y = -1\<rparr> 270) = -45
   \<and> spec_bearing \<lparr>real_x = -1, real_y = -1\<rparr> 270 = 315
   \<and> snd (calculateDistanceAndBearing \<lparr>real_x = -1, real_y = -1\<rparr> 270)
       \<noteq> spec_bearing \<lparr>real_x = -1, real_y = -1\<rparr> 270
   \<and> calculatePointData scenario_ready \<lparr>pix_x = 150, pix_y = 50\<rparr>
       = (\<lparr>real_x = 10, real_y = 0\<rparr>, 10, 90)
   \<and> spec_bearing \<lparr>real_x = 10, real_y = 0\<rparr> 0 = 90"
  by (simp add: calculateDistanceAndBearing_m1_m1_270 spec_bearing_m1_m1_270
      scenario_point_data scenario_bearing_eq_spec)

text \<open>
  C1 (evaluation at the failing input). In the calibrated scenario the pixel
  \<open>(40, 60)\<close> has the real coordinates \<open>(-1, -1)\<close>, and dragging the compass to the
  point exactly left of its centre sets the reference direction to 270 degrees;
  the bearing computed for these two values is -45, outside \<open>[0, 360)\<close>.
\<close>

theorem bearing_negative_at_270:
  "calculateDistanceAndBearing \<lparr>real_x = -1, real_y = -1\<rparr> 270 = (sqrt 2, -45)
   \<and> calculateRealCoords scenario_ready \<lparr>pix_x = 40, pix_y = 60\<rparr> = \<lparr>real_x = -1, real_y = -1\<rparr>
   \<and> northRotation (compassMouseMove scenario_ready 0 (-1)) = 270"
proof -
  have "calculateRealCoords scenario_ready \<lparr>pix_x = 40, pix_y = 60\<rparr>
      = \<lparr>real_x = -1, real_y = -1\<rparr>"
    by (simp add: calculateRealCoords_def scenario_ready_not_calibrated scenario_ready_calibrated)
  moreover have "northRotation (compassMouseMove scenario_ready 0 (-1)) = 270"
    by (simp add: compassMouseMove_def setNorthRotation_def recalculateBearings_def
        scenario_ready_calibrated atan2_0_m1)
  ultimately show ?thesis
    using calculateDistanceAndBearing_m1_m1_270 by simp
qed

section \<open>Polygon area\<close>

lemma polygon_loop_sum:
  "polygon_loop cs n i a =
     a + (\<Sum>k = i..<n. real_x (cs ! k) * real_y (cs ! ((k + 1) mod n))
                        - real_x (cs ! ((k + 1) mod n)) * real_y (cs ! k))"
proof (induction cs n i a rule: polygon_loop.induct)
  case (1 coords n i area)
  show ?case
  proof (cases "i < n")
    case True
    have "polygon_loop coords n i area =
        polygon_loop coords n (i + 1)
          (area + real_x (coords ! i) * real_y (coords ! ((i + 1) mod n))
             - real_x (coords ! ((i + 1) mod n)) * real_y (coords ! i))"
      using True by (subst polygon_loop.simps) (simp add: Let_def)
    also have "\<dots> =
        area + real_x (coords ! i) * real_y (coords ! ((i + 1) mod n))
          - real_x (coords ! ((i + 1) mod n)) * real_y (coords ! i)
          + (\<Sum>k = i + 1..<n. real_x (coords ! k) * real_y (coords ! ((k + 1) mod n))
                        - real_x (coords ! ((k + 1) mod n)) * real_y (coords ! k))"
      by (rule "1.IH" [OF True refl refl refl])
    also have "\<dots> =
        area + (\<Sum>k = i..<n. real_x (coords ! k) * real_y (coords ! ((k + 1) mod n))
                        - real_x (coords ! ((k + 1) mod n)) * real_y (coords ! k))"
      using True by (simp add: sum.atLeast_Suc_lessThan)
    finally show ?thesis .
  next
    case False
    then show ?thesis
      by (subst polygon_loop.simps) simp
  qed
qed

lemma calculatePolygonArea_shoelace:
  "calculatePolygonArea cs = (if length cs < 3 then 0 else \<bar>shoelace_sum cs\<bar> / 2)"
  by (simp add: calculatePolygonArea_def Let_def polygon_loop_sum shoelace_sum_def
      shoelace_term_def atLeast0LessThan)

lemma succ_mod_pred: "a < n \<Longrightarrow> ((a + 1) mod n + (n - 1)) mod n = (a::nat)"
proof (cases "a + 1 < n")
  case True
  then have "(a + 1) mod n + (n - 1) = a + n" by simp
  moreover assume "a < n"
  ultimately show ?thesis by simp
next
  case False
  moreover assume "a < n"
  ultimately have "a + 1 = n" by simp
  then show ?thesis by auto
qed

lemma pred_mod_succ: "b < n \<Longrightarrow> ((b + (n - 1)) mod n + 1) mod n = (b::nat)"
proof (cases b)
  case 0
  moreover assume "b < n"
  ultimately show ?thesis by simp
next
  case (Suc c)
  moreover assume "b < n"
  ultimately have "b + (n - 1) = c + n" and "c < n" and "c + 1 < n" by simp_all
  then show ?thesis using Suc by simp
qed

text \<open>Starting the polygon at its second vertex permutes the edges.\<close>

lemma shoelace_sum_rotate1: "shoelace_sum (rotate1 cs) = shoelace_sum cs"
proof (cases "cs = []")
  case True
  then show ?thesis by simp
next
  case False
  let ?n = "length cs"
  have n: "0 < ?n" using False by simp
  have t: "shoelace_term (rotate1 cs) i = shoelace_term cs ((i + 1) mod ?n)" if "i < ?n" for i
    using that n by (simp add: shoelace_term_def nth_rotate1 mod_simps)
  have "shoelace_sum (rotate1 cs) = (\<Sum>i<?n. shoelace_term cs ((i + 1) mod ?n))"
    by (simp add: shoelace_sum_def t)
  also have "\<dots> = (\<Sum>k<?n. shoelace_term cs k)"
  proof (rule sum.reindex_bij_witness [where i = "\<lambda>k. (k + (?n - 1)) mod ?n"
        and j = "\<lambda>i. (i + 1) mod ?n"])
    fix a assume "a \<in> {..<?n}"
    then have "a < ?n" by simp
    then show "((a + 1) mod ?n + (?n - 1)) mod ?n = a"
      by (rule succ_mod_pred)
  next
    fix a assume "a \<in> {..<?n}"
    then show "(a + 1) mod ?n \<in> {..<?n}" using n by simp
  next
    fix b assume "b \<in> {..<?n}"
    then have "b < ?n" by simp
    then show "((b + (?n - 1)) mod ?n + 1) mod ?n = b"
      by (rule pred_mod_succ)
  next
    fix b assume "b \<in> {..<?n}"
    then show "(b + (?n - 1)) mod ?n \<in> {..<?n}" using n by simp
  qed simp
  finally show ?thesis by (simp add: shoelace_sum_def)
qed

lemma shoelace_sum_rotate: "shoelace_sum (rotate k cs) = shoelace_sum cs"
  by (induction k) (simp_all add: shoelace_sum_rotate1)

lemma mirror_index_less: "i < n \<Longrightarrow> mirror_index n i < n"
  by (simp add: mirror_index_def)

lemma mirror_index_succ: "i < n \<Longrightarrow> (mirror_index n i + 1) mod n = n - 1 - i"
proof (cases "i + 1 < n")
  case True
  assume "i < n"
  with True show ?thesis by (simp add: mirror_index_def)
next
  case False
  assume "i < n"
  with False have "i + 1 = n" by simp
  then show ?thesis by (auto simp: mirror_index_def)
qed

lemma mirror_index_invol: "i < n \<Longrightarrow> mirror_index n (mirror_index n i) = i"
  using mirror_index_succ [of i n] mirror_index_less [of i n]
  by (simp add: mirror_index_def)

text \<open>Reversing the winding direction reverses every edge: the sum changes sign.\<close>

lemma shoelace_sum_rev: "shoelace_sum (rev cs) = - shoelace_sum cs"
proof -
  let ?n = "length cs"
  have t: "shoelace_term (rev cs) i = - shoelace_term cs (mirror_index ?n i)" if "i < ?n" for i
  proof -
    have a: "rev cs ! i = cs ! (?n - 1 - i)"
      using that by (simp add: rev_nth)
    have "0 < ?n" using that by (cases cs) simp_all
    then have "(i + 1) mod ?n < ?n" by (rule mod_less_divisor)
    then have b: "rev cs ! ((i + 1) mod ?n) = cs ! mirror_index ?n i"
      by (simp add: rev_nth mirror_index_def)
    have c: "(mirror_index ?n i + 1) mod ?n = ?n - 1 - i"
      using that by (rule mirror_index_succ)
    show ?thesis
      unfolding shoelace_term_def length_rev a b c by simp
  qed
  have "shoelace_sum (rev cs) = (\<Sum>i<?n. - shoelace_term cs (mirror_index ?n i))"
    by (simp add: shoelace_sum_def t)
  also have "\<dots> = - (\<Sum>i<?n. shoelace_term cs (mirror_index ?n i))"
    by (simp add: sum_negf)
  also have "(\<Sum>i<?n. shoelace_term cs (mirror_index ?n i)) = (\<Sum>k<?n. shoelace_term cs k)"
    by (rule sum.reindex_bij_witness [where i = "mirror_index ?n" and j = "mirror_index ?n"])
      (simp_all add: mirror_index_less mirror_index_invol)
  finally show ?thesis by (simp add: shoelace_sum_def)
qed

lemma shoelace_sum_4:
  "shoelace_sum [p0, p1, p2, p3] =
     (real_x p0 * real_y p1 - real_x p1 * real_y p0)
     + (real_x p1 * real_y p2 - real_x p2 * real_y p1)
     + (real_x p2 * real_y p3 - real_x p3 * real_y p2)
     + (real_x p3 * real_y p0 - real_x p0 * real_y p3)"
proof -
  have "{..<length [p0, p1, p2, p3]} = {0, 1, 2, 3::nat}" by auto
  then have "shoelace_sum [p0, p1, p2, p3] =
      shoelace_term [p0, p1, p2, p3] 0 + (shoelace_term [p0, p1, p2, p3] 1
      + (shoelace_term [p0, p1, p2, p3] 2 + shoelace_term [p0, p1, p2, p3] 3))"
    unfolding shoelace_sum_def by simp
  moreover have "shoelace_term [p0, p1, p2, p3] 0 = real_x p0 * real_y p1 - real_x p1 * real_y p0"
    by (simp add: shoelace_term_def)
  moreover have "shoelace_term [p0, p1, p2, p3] 1 = real_x p1 * real_y p2 - real_x p2 * real_y p1"
    by (simp add: shoelace_term_def)
  moreover have "shoelace_term [p0, p1, p2, p3] 2 = real_x p2 * real_y p3 - real_x p3 * real_y p2"
    by (simp add: shoelace_term_def)
  moreover have "shoelace_term [p0, p1, p2, p3] 3 = real_x p3 * real_y p0 - real_x p0 * real_y p3"
    by (simp add: shoelace_term_def)
  ultimately show ?thesis by simp
qed

lemma shoelace_sum_square:
  "shoelace_sum [\<lparr>real_x = a, real_y = b\<rparr>, \<lparr>real_x = a + s, real_y = b\<rparr>,
                 \<lparr>real_x = a + s, real_y = b + s\<rparr>, \<lparr>real_x = a, real_y = b + s\<rparr>] = 2 * s\<^sup>2"
  unfolding shoelace_sum_4 by (simp add: power2_eq_square algebra_simps)

text \<open>
  C6. For every sequence of real coordinates, \<open>calculatePolygonArea\<close> returns the
  absolute value of the shoelace sum, halved, when there are at least three
  vertices, and 0 otherwise; the result is non-negative, it is the same for the
  reversed sequence (the other winding direction) and for every rotation of the
  sequence (another starting vertex), and it is \<open>s\<^sup>2\<close> for an axis-aligned square of
  side \<open>s\<close>.
\<close>

theorem calculatePolygonArea_correct:
  "(3 \<le> length cs \<longrightarrow>
      calculatePolygonArea cs =
        \<bar>\<Sum>i<length cs. real_x (cs ! i) * real_y (cs ! ((i + 1) mod length cs))
                        - real_x (cs ! ((i + 1) mod length cs)) * real_y (cs ! i)\<bar> / 2)
   \<and> (length cs < 3 \<longrightarrow> calculatePolygonArea cs = 0)
   \<and> 0 \<le> calculatePolygonArea cs
   \<and> calculatePolygonArea (rev cs) = calculatePolygonArea cs
   \<and> calculatePolygonArea (rotate k cs) = calculatePolygonArea cs
   \<and> calculatePolygonArea
        [\<lparr>real_x = a, real_y = b\<rparr>, \<lparr>real_x = a + s, real_y = b\<rparr>,
         \<lparr>real_x = a + s, real_y = b + s\<rparr>, \<lparr>real_x = a, real_y = b + s\<rparr>] = s\<^sup>2"
proof -
  have "3 \<le> length cs \<longrightarrow>
      calculatePolygonArea cs =
        \<bar>\<Sum>i<length cs. real_x (cs ! i) * real_y (cs ! ((i + 1) mod length cs))
                        - real_x (cs ! ((i + 1) mod length cs)) * real_y (cs ! i)\<bar> / 2"
    by (simp add: calculatePolygonArea_shoelace shoelace_sum_def shoelace_term_def)
  moreover have "length cs < 3 \<longrightarrow> calculatePolygonArea cs = 0"
    by (simp add: calculatePolygonArea_shoelace)
  moreover have "0 \<le> calculatePolygonArea cs"
    by (simp add: calculatePolygonArea_shoelace)
  moreover have "calculatePolygonArea (rev cs) = calculatePolygonArea cs"
    by (simp add: calculatePolygonArea_shoelace shoelace_sum_rev)
  moreover have "calculatePolygonArea (rotate k cs) = calculatePolygonArea cs"
    by (simp add: calculatePolygonArea_shoelace shoelace_sum_rotate)
  moreover have "calculatePolygonArea
        [\<lparr>real_x = a, real_y = b\<rparr>, \<lparr>real_x = a + s, real_y = b\<rparr>,
         \<lparr>real_x = a + s, real_y = b + s\<rparr>, \<lparr>real_x = a, real_y = b + s\<rparr>] = s\<^sup>2"
    by (simp add: calculatePolygonArea_shoelace shoelace_sum_square)
  ultimately show ?thesis by blast
qed

theorem calculatePolygonArea_correct_witness:
  "3 \<le> length [\<lparr>real_x = 0, real_y = 0\<rparr>, \<lparr>real_x = 4, real_y = 0\<rparr>, \<lparr>real_x = 0, real_y = 3\<rparr>]
   \<and> calculatePolygonArea
        [\<lparr>real_x = 0, real_y = 0\<rparr>, \<lparr>real_x = 4, real_y = 0\<rparr>, \<lparr>real_x = 0, real_y = 3\<rparr>] = 6
   \<and> length [\<lparr>real_x = 0, real_y = 0\<rparr>, \<lparr>real_x = 4, real_y = 0\<rparr>] < 3
   \<and> calculatePolygonArea [\<lparr>real_x = 0, real_y = 0\<rparr>, \<lparr>real_x = 4, real_y = 0\<rparr>] = 0
   \<and> calculatePolygonArea
        [\<lparr>real_x = 0, real_y = 0\<rparr>, \<lparr>real_x = 10, real_y = 0\<rparr>,
         \<lparr>real_x = 10, real_y = 10\<rparr>, \<lparr>real_x = 0, real_y = 10\<rparr>] = 100"
proof -
  let ?tri = "[\<lparr>real_x = 0, real_y = 0\<rparr>, \<lparr>real_x = 4, real_y = 0\<rparr>, \<lparr>real_x = 0, real_y = 3\<rparr>]"
  have l: "{..<length ?tri} = {0, 1, 2::nat}" by auto
  have "calculatePolygonArea ?tri = 6"
    using calculatePolygonArea_correct [of ?tri] unfolding l by simp
  moreover have "calculatePolygonArea [\<lparr>real_x = 0, real_y = 0\<rparr>, \<lparr>real_x = 4, real_y = 0\<rparr>] = 0"
    using calculatePolygonArea_correct [of "[\<lparr>real_x = 0, real_y = 0\<rparr>, \<lparr>real_x = 4, real_y = 0\<rparr>]"]
    by simp
  moreover have "calculatePolygonArea
        [\<lparr>real_x = 0, real_y = 0\<rparr>, \<lparr>real_x = 10, real_y = 0\<rparr>,
         \<lparr>real_x = 10, real_y = 10\<rparr>, \<lparr>real_x = 0, real_y = 10\<rparr>] = 100"
    using calculatePolygonArea_correct [of "[]" 0 0 0 10] by simp
  ultimately show ?thesis by simp
qed

section \<open>Recalculation of the bearings on rotation\<close>

lemma string_of_nat_Suc_0: "string_of_nat (Suc 0) = ''1''"
  by (subst string_of_nat.simps) (simp add: digit_char_def)

lemma trim_Punto_1: "trim ''Punto 1'' = ''Punto 1''"
  by (simp add: trim_def is_space_def)

lemma scenario_saved_reached:
  "clicks scenario_ready [\<lparr>pix_x = 150, pix_y = 50\<rparr>]
     = Inr (scenario_ready\<lparr>tempPoint := Some \<lparr>pix_x = 150, pix_y = 50\<rparr>,
              newPointName := ''Punto 1'', appState := NAMING_POINT\<rparr>)"
  "handleSavePoint (scenario_ready\<lparr>tempPoint := Some \<lparr>pix_x = 150, pix_y = 50\<rparr>,
              newPointName := ''Punto 1'', appState := NAMING_POINT\<rparr>) = scenario_saved"
proof -
  show "clicks scenario_ready [\<lparr>pix_x = 150, pix_y = 50\<rparr>]
     = Inr (scenario_ready\<lparr>tempPoint := Some \<lparr>pix_x = 150, pix_y = 50\<rparr>,
              newPointName := ''Punto 1'', appState := NAMING_POINT\<rparr>)"
    by (simp add: handleImageClick_def scenario_ready_calibrated string_of_nat_Suc_0)
  have pd: "calculatePointData
      (scenario_ready\<lparr>tempPoint := Some \<lparr>pix_x = 150, pix_y = 50\<rparr>,
              newPointName := ''Punto 1'', appState := NAMING_POINT\<rparr>) \<lparr>pix_x = 150, pix_y = 50\<rparr>
      = calculatePointData scenario_ready \<lparr>pix_x = 150, pix_y = 50\<rparr>"
    by (simp add: calculatePointData_def calculateRealCoords_def not_calibrated_def)
  show "handleSavePoint (scenario_ready\<lparr>tempPoint := Some \<lparr>pix_x = 150, pix_y = 50\<rparr>,
              newPointName := ''Punto 1'', appState := NAMING_POINT\<rparr>) = scenario_saved"
    by (simp add: handleSavePoint_def trim_Punto_1 pd scenario_point_data handleCancelNaming_def)
      (simp add: scenario_saved_def scenario_ready_def initial_App_def)
qed

lemma degenerate_naming_reached:
  "clicks (handleFileUpload initial_App)
     [\<lparr>pix_x = 0, pix_y = 0\<rparr>, \<lparr>pix_x = 0, pix_y = 0\<rparr>, \<lparr>pix_x = 50, pix_y = 50\<rparr>,
      \<lparr>pix_x = 150, pix_y = 50\<rparr>]
   = Inr degenerate_naming"
  by (simp add: handleFileUpload_def handleImageClick_def initial_App_def degenerate_naming_def
      calculateDistance_def js_div_def Let_def string_of_nat_Suc_0)

lemma degenerate_saved:
  "handleSavePoint degenerate_naming =
     degenerate_naming\<lparr>points := [\<lparr>name = ''Punto 1'', pixelCoords = \<lparr>pix_x = 150, pix_y = 50\<rparr>,
         realCoords = \<lparr>real_x = 0, real_y = 0\<rparr>, distance = 0, bearing = 0\<rparr>],
       tempPoint := None, newPointName := [], appState := READY\<rparr>"
  by (simp add: handleSavePoint_def degenerate_naming_def initial_App_def trim_Punto_1
      calculatePointData_def calculateRealCoords_def not_calibrated_def
      calculateDistanceAndBearing_def atan2_def js_rem_360_360 handleCancelNaming_def Let_def)

lemma cong360_I: "a - b = 360 * of_int k \<Longrightarrow> cong360 a b"
  by (simp add: cong360_def)

lemma js_rem_360: "js_rem a 360 = a - 360 * of_int (js_trunc (a / 360))"
  by (simp add: js_rem_def)

lemma bearing_shift:
  "cong360 (snd (calculateDistanceAndBearing rc (r + d)))
           (snd (calculateDistanceAndBearing rc r) - d)"
proof -
  let ?a = "atan2 (real_x rc) (real_y rc) * (180 / pi)"
  have "snd (calculateDistanceAndBearing rc (r + d)) - (snd (calculateDistanceAndBearing rc r) - d)
      = 360 * of_int (js_trunc ((?a - r + 360) / 360) - js_trunc ((?a - (r + d) + 360) / 360))"
    by (simp add: calculateDistanceAndBearing_def Let_def js_rem_360 algebra_simps)
  then show ?thesis by (rule cong360_I)
qed

lemma recalculateBearings_points:
  "points st \<noteq> [] \<Longrightarrow> \<not> not_calibrated st \<Longrightarrow>
     points (recalculateBearings st) =
       map (\<lambda>p. p\<lparr>bearing := snd (calculateDistanceAndBearing (realCoords p) (northRotation st))\<rparr>)
         (points st)"
  by (simp add: recalculateBearings_def)

lemma not_calibrated_northRotation:
  "not_calibrated (st\<lparr>northRotation := r\<rparr>) = not_calibrated st"
  by (simp add: not_calibrated_def)

text \<open>
  The stored bearings are current after a point has been saved and after the
  reference direction has been changed in a calibrated state.
\<close>

lemma bearings_current_setNorthRotation:
  "\<not> not_calibrated st \<Longrightarrow> bearings_current st \<or> r \<noteq> northRotation st \<Longrightarrow>
     bearings_current (setNorthRotation st r)"
  by (auto simp: setNorthRotation_def recalculateBearings_def bearings_current_def
      list_all_iff not_calibrated_northRotation)

lemma bearings_current_handleSavePoint:
  "bearings_current st \<Longrightarrow> bearings_current (handleSavePoint st)"
  by (auto simp: handleSavePoint_def handleCancelNaming_def bearings_current_def
      calculatePointData_def Let_def list_all_iff split: option.splits prod.splits)

lemma bearings_current_initial: "bearings_current initial_App"
  by (simp add: bearings_current_def initial_App_def)

lemma bearings_current_handleReset: "bearings_current (handleReset st)"
  by (simp add: bearings_current_def handleReset_def)

lemma bearings_current_handleDeletePoint:
  "bearings_current st \<Longrightarrow> bearings_current (handleDeletePoint st index)"
proof -
  assume "bearings_current st"
  moreover have "set (map snd (filter (\<lambda>(i, p). i \<noteq> index) (enumerate 0 (points st))))
      \<subseteq> set (points st)"
    by (auto simp: in_set_enumerate_eq)
  ultimately show ?thesis
    by (auto simp: bearings_current_def handleDeletePoint_def list_all_iff)
qed

lemma bearings_current_handleImageClick:
  "bearings_current st \<Longrightarrow> handleImageClick st e = Inr st' \<Longrightarrow> bearings_current st'"
  by (cases "appState st")
    (auto simp: handleImageClick_def bearings_current_def Let_def
      split: option.splits list.splits prod.splits)

text \<open>
  C7 (as stated, refuted). After a calibration whose two clicks fall on the same
  pixel the scale is 0; a point saved in that state has the bearing 0, and
  turning the reference direction by 90 degrees leaves the stored bearing at 0,
  which does not differ from \<open>0 - 90\<close> by a whole number of turns.
\<close>

theorem rotation_degenerate_counterexample:
  "map bearing (points (handleSavePoint degenerate_naming)) = [0]
   \<and> map bearing (points (setNorthRotation (handleSavePoint degenerate_naming) 90)) = [0]
   \<and> \<not> cong360 0 (0 - 90)"
  unfolding degenerate_saved
  by (simp add: setNorthRotation_def recalculateBearings_def not_calibrated_def
      degenerate_naming_def initial_App_def cong360_def)

text \<open>
  C7 (amended). For every non-empty stored point collection whose bearings are
  those of the current reference direction, in a state where the origin is set
  and the scale is a number other than 0 and \<open>NaN\<close>, changing the reference
  direction by \<open>d\<close> recomputes the bearing of every stored point from its stored
  real coordinates; the new bearing differs from the old one minus \<open>d\<close> by a whole
  number of turns, and the distance, the real coordinates, the pixel coordinates
  and the name of every point are unchanged.
\<close>

theorem rotation_recomputes_bearings:
  assumes "points st \<noteq> []" and "\<not> not_calibrated st" and "bearings_current st"
    and "i < length (points st)"
  shows "length (points (setNorthRotation st (northRotation st + d))) = length (points st)
    \<and> bearing (points (setNorthRotation st (northRotation st + d)) ! i)
        = snd (calculateDistanceAndBearing (realCoords (points st ! i)) (northRotation st + d))
    \<and> cong360 (bearing (points (setNorthRotation st (northRotation st + d)) ! i))
               (bearing (points st ! i) - d)
    \<and> distance (points (setNorthRotation st (northRotation st + d)) ! i) = distance (points st ! i)
    \<and> realCoords (points (setNorthRotation st (northRotation st + d)) ! i) = realCoords (points st ! i)
    \<and> pixelCoords (points (setNorthRotation st (northRotation st + d)) ! i) = pixelCoords (points st ! i)
    \<and> name (points (setNorthRotation st (northRotation st + d)) ! i) = name (points st ! i)"
proof -
  let ?p = "points st ! i"
  have cur: "bearing ?p = snd (calculateDistanceAndBearing (realCoords ?p) (northRotation st))"
    using assms(3,4) by (simp add: bearings_current_def list_all_length)
  show ?thesis
  proof (cases "d = 0")
    case True
    then show ?thesis
      using cur by (simp add: setNorthRotation_def cong360_def)
  next
    case False
    then have "points (setNorthRotation st (northRotation st + d)) =
        map (\<lambda>p. p\<lparr>bearing := snd (calculateDistanceAndBearing (realCoords p)
                                     (northRotation st + d))\<rparr>) (points st)"
      using assms(1,2)
      by (simp add: setNorthRotation_def recalculateBearings_points not_calibrated_northRotation)
    then show ?thesis
      using assms(4) cur bearing_shift [of "realCoords ?p" "northRotation st" d] by simp
  qed
qed

lemma scenario_saved_facts:
  "points scenario_saved \<noteq> []" "\<not> not_calibrated scenario_saved"
  "bearings_current scenario_saved" "0 < length (points scenario_saved)"
  "northRotation scenario_saved = 0"
  "points scenario_saved ! 0 =
     \<lparr>name = ''Punto 1'', pixelCoords = \<lparr>pix_x = 150, pix_y = 50\<rparr>,
      realCoords = \<lparr>real_x = 10, real_y = 0\<rparr>, distance = 10, bearing = 90\<rparr>"
  by (simp_all add: scenario_saved_def scenario_ready_def initial_App_def not_calibrated_def
      bearings_current_def calculateDistanceAndBearing_def atan2_def js_rem_450)

theorem rotation_recomputes_bearings_witness:
  "points scenario_saved \<noteq> [] \<and> \<not> not_calibrated scenario_saved
   \<and> bearings_current scenario_saved \<and> 0 < length (points scenario_saved)
   \<and> bearing (points scenario_saved ! 0) = 90
   \<and> bearing (points (setNorthRotation scenario_saved (northRotation scenario_saved + 90)) ! 0) = 0
   \<and> cong360 0 (90 - 90)
   \<and> distance (points (setNorthRotation scenario_saved (northRotation scenario_saved + 90)) ! 0) = 10"
proof -
  have b: "snd (calculateDistanceAndBearing \<lparr>real_x = 10, real_y = 0\<rparr> 90) = 0"
    by (simp add: calculateDistanceAndBearing_def atan2_def js_rem_360_360)
  show ?thesis
    using rotation_recomputes_bearings [OF scenario_saved_facts(1-4), of 90]
    by (simp add: scenario_saved_facts b cong360_def)
qed

section \<open>Finishing an area\<close>

text \<open>
  C8. In \<open>DEFINING_AREA\<close>, finishing the area with fewer than three vertices is
  rejected: the whole state is unchanged (the state stays \<open>DEFINING_AREA\<close>, the
  vertices in progress and the areas are the same), an alert is raised, and no
  exception is thrown.
\<close>

theorem handleFinishArea_rejected:
  assumes "appState st = DEFINING_AREA" and "length (currentAreaPoints st) < 3"
  shows "handleFinishArea st = (st, Some AlertThreePointsNeeded)
         \<and> appState (fst (handleFinishArea st)) = DEFINING_AREA
         \<and> currentAreaPoints (fst (handleFinishArea st)) = currentAreaPoints st
         \<and> areas (fst (handleFinishArea st)) = areas st"
  using assms by (simp add: handleFinishArea_def)

lemma string_of_nat_2: "string_of_nat (Suc (Suc 0)) = ''2''"
  by (subst string_of_nat.simps) (simp add: digit_char_def)

lemma scenario_two_vertices_reached:
  "clicks (handleStartAreaMode scenario_ready)
     [\<lparr>pix_x = 50, pix_y = 50\<rparr>, \<lparr>pix_x = 150, pix_y = 50\<rparr>] = Inr scenario_two_vertices"
proof -
  have c: "\<not> not_calibrated (scenario_ready\<lparr>appState := DEFINING_AREA, currentAreaPoints := vs\<rparr>)"
    for vs
    by (simp add: not_calibrated_def scenario_ready_calibrated)
  show ?thesis
    by (simp add: handleStartAreaMode_def handleImageClick_def scenario_ready_calibrated
        calculatePointData_def calculateRealCoords_def c calculateDistanceAndBearing_def
        atan2_def js_rem_360_360 js_rem_450 string_of_nat_Suc_0 string_of_nat_2
        scenario_two_vertices_def Let_def)
qed

theorem handleFinishArea_rejected_witness:
  "appState scenario_two_vertices = DEFINING_AREA
   \<and> length (currentAreaPoints scenario_two_vertices) = 2
   \<and> handleFinishArea scenario_two_vertices = (scenario_two_vertices, Some AlertThreePointsNeeded)"
proof -
  have h: "appState scenario_two_vertices = DEFINING_AREA"
    "length (currentAreaPoints scenario_two_vertices) < 3"
    by (simp_all add: scenario_two_vertices_def)
  have "length (currentAreaPoints scenario_two_vertices) = 2"
    by (simp add: scenario_two_vertices_def)
  then show ?thesis
    using h handleFinishArea_rejected [OF h] by simp
qed

section \<open>The preview of the real coordinates under the mouse\<close>

lemma lt_READY:
  "js_string_lt (AppState_value s) (AppState_value READY)
     = (s \<in> {CALIBRATE_START, CALIBRATE_END, DEFINING_AREA, NAMING_POINT, NAMING_AREA})"
  by (cases s) simp_all

text \<open>
  C10. The guard \<open>appState < AppState.READY\<close> of the mouse-move handler compares
  the string values of the enum members, not their position in the workflow: the
  preview is set to \<open>null\<close> exactly in \<open>CALIBRATE_START\<close>, \<open>CALIBRATE_END\<close>,
  \<open>DEFINING_AREA\<close>, \<open>NAMING_POINT\<close> and \<open>NAMING_AREA\<close>, and it is computed in \<open>READY\<close>,
  \<open>SET_ORIGIN\<close> and \<open>UPLOAD_IMAGE\<close>; in \<open>SET_ORIGIN\<close>, with the origin not yet set, the
  preview is \<open>(0, 0)\<close> for every mouse position.
\<close>

theorem mouse_preview_guard:
  "(js_string_lt (AppState_value (appState st)) (AppState_value READY)
      \<longleftrightarrow> appState st \<in> {CALIBRATE_START, CALIBRATE_END, DEFINING_AREA, NAMING_POINT, NAMING_AREA})
   \<and> (appState st \<in> {CALIBRATE_START, CALIBRATE_END, DEFINING_AREA, NAMING_POINT, NAMING_AREA}
        \<longrightarrow> mouseRealCoords (handleImageMouseMove st e) = None)
   \<and> (appState st \<in> {READY, SET_ORIGIN, UPLOAD_IMAGE}
        \<longrightarrow> mouseRealCoords (handleImageMouseMove st (Some c)) = Some (calculateRealCoords st c))
   \<and> (appState st = SET_ORIGIN \<and> origin st = None
        \<longrightarrow> mouseRealCoords (handleImageMouseMove st (Some c)) = Some \<lparr>real_x = 0, real_y = 0\<rparr>)
   \<and> AppState_index SET_ORIGIN < AppState_index READY
   \<and> \<not> js_string_lt (AppState_value SET_ORIGIN) (AppState_value READY)
   \<and> AppState_index READY < AppState_index NAMING_POINT
   \<and> js_string_lt (AppState_value NAMING_POINT) (AppState_value READY)"
  unfolding lt_READY handleImageMouseMove_def Let_def
  by (cases "appState st") (auto simp: lt_READY calculateRealCoords_def not_calibrated_def)

theorem mouse_preview_guard_witness:
  "appState (initial_App\<lparr>appState := SET_ORIGIN\<rparr>) = SET_ORIGIN
   \<and> origin (initial_App\<lparr>appState := SET_ORIGIN\<rparr>) = None
   \<and> mouseRealCoords (handleImageMouseMove (initial_App\<lparr>appState := SET_ORIGIN\<rparr>)
        (Some \<lparr>pix_x = 3, pix_y = 4\<rparr>)) = Some \<lparr>real_x = 0, real_y = 0\<rparr>
   \<and> appState (initial_App\<lparr>appState := NAMING_POINT\<rparr>) = NAMING_POINT
   \<and> mouseRealCoords (handleImageMouseMove (initial_App\<lparr>appState := NAMING_POINT\<rparr>)
        (Some \<lparr>pix_x = 3, pix_y = 4\<rparr>)) = None"
proof -
  let ?st = "initial_App\<lparr>appState := SET_ORIGIN\<rparr>"
  let ?st2 = "initial_App\<lparr>appState := NAMING_POINT\<rparr>"
  have h: "appState ?st = SET_ORIGIN \<and> origin ?st = None"
    by (simp add: initial_App_def)
  have h2: "appState ?st2 = NAMING_POINT"
    by (simp add: initial_App_def)
  from mouse_preview_guard [of ?st None "\<lparr>pix_x = 3, pix_y = 4\<rparr>"] h
  have a: "mouseRealCoords (handleImageMouseMove ?st (Some \<lparr>pix_x = 3, pix_y = 4\<rparr>))
      = Some \<lparr>real_x = 0, real_y = 0\<rparr>"
    by blast
  from mouse_preview_guard [of ?st2 "Some \<lparr>pix_x = 3, pix_y = 4\<rparr>" "\<lparr>pix_x = 3, pix_y = 4\<rparr>"] h2
  have b: "mouseRealCoords (handleImageMouseMove ?st2 (Some \<lparr>pix_x = 3, pix_y = 4\<rparr>)) = None"
    by simp
  from h h2 a b show ?thesis by simp
qed


end
